theory Spec2Isabelle
  imports Main "HOL-Library.AList"
begin

section \<open>webstore: the REST handlers of \<^verbatim>\<open>webstore/web.py\<close>\<close>

text \<open>
  The handlers of \<^verbatim>\<open>web.py\<close> are embedded as HOL functions. A Python exception is
  the left summand of a result, a rendered response the right one. The request's query
  string (a werkzeug \<^verbatim>\<open>MultiDict\<close>) is the list of its key/value pairs in the order
  they were sent, a Python \<^verbatim>\<open>dict\<close> row an association list with distinct keys.
\<close>

subsection \<open>Values, rows, responses\<close>

datatype val = VNull | VInt int | VStr string

type_synonym row = "(string \<times> val) list"

type_synonym params = "(string \<times> string) list"

text \<open>
  \<^verbatim>\<open>render_message(request, message, format, state, code, url)\<close> and
  \<^verbatim>\<open>render_table(request, rows, keys, format)\<close> belong to \<^verbatim>\<open>webstore.formats\<close>. Only what
  the handlers hand over is kept: the envelope of a message, and the column names and
  rows of a table. The byte-level rendering chosen by \<^verbatim>\<open>format\<close> is left out.
\<close>

record envelope =
  state :: string
  message :: string
  code :: nat
  url :: "string option"

datatype response = Message envelope | TablePayload "string list" "row list"

definition render_message :: "string \<Rightarrow> string \<Rightarrow> nat \<Rightarrow> string option \<Rightarrow> response" where
  "render_message msg st c u = Message \<lparr>state = st, message = msg, code = c, url = u\<rparr>"

definition render_table :: "row list \<Rightarrow> string list \<Rightarrow> response" where
  "render_table rows keys = TablePayload keys rows"

text \<open>
  \<^verbatim>\<open>WebstoreException\<close> carries the response rendered in its constructor. A
  \<^verbatim>\<open>TypeError\<close> is not caught anywhere in \<^verbatim>\<open>web.py\<close>; sqlalchemy's
  \<^verbatim>\<open>OperationalError\<close> is caught in \<^verbatim>\<open>_query\<close> only.
\<close>

datatype exn = WebstoreException response | TypeError string | OperationalError string

definition abort :: "string \<Rightarrow> nat \<Rightarrow> exn" where
  "abort msg c = WebstoreException (render_message msg ''error'' c None)"

subsection \<open>Python built-ins used by the handlers\<close>

text \<open>
  \<^verbatim>\<open>int\<close> is Python's own function and is not modelled: the handlers that call it take it
  as the parameter \<open>py_int\<close>, which returns the integer or, for the \<^verbatim>\<open>ValueError\<close> it
  raises, the text of that exception.
\<close>

definition lower_char :: "char \<Rightarrow> char" where
  "lower_char c =
     (if (65::nat) \<le> of_char c \<and> of_char c \<le> (90::nat)
      then char_of (of_char c + (32::nat)) else c)"

definition lower :: "string \<Rightarrow> string" where
  "lower s = map lower_char s"

text \<open>\<^verbatim>\<open>s.split(':', 1)\<close> for a string that contains a colon: cut at the first one.\<close>

definition split_colon :: "string \<Rightarrow> string \<times> string" where
  "split_colon s =
     (takeWhile (\<lambda>c. c \<noteq> CHR '':'') s, tl (dropWhile (\<lambda>c. c \<noteq> CHR '':'') s))"

subsection \<open>The multi-valued parameter mapping\<close>

definition contains :: "string \<Rightarrow> params \<Rightarrow> bool" where
  "contains k ps = (k \<in> set (map fst ps))"

text \<open>\<^verbatim>\<open>pop(k, None)\<close>: the first value of the key, all its values removed.\<close>

definition pop :: "string \<Rightarrow> params \<Rightarrow> string option \<times> params" where
  "pop k ps = (map_of ps k, filter (\<lambda>p. fst p \<noteq> k) ps)"

definition poplist :: "string \<Rightarrow> params \<Rightarrow> string list \<times> params" where
  "poplist k ps = (map snd (filter (\<lambda>p. fst p = k) ps), filter (\<lambda>p. fst p \<noteq> k) ps)"

definition getlist :: "string \<Rightarrow> params \<Rightarrow> string list" where
  "getlist k ps = map snd (filter (\<lambda>p. fst p = k) ps)"

subsection \<open>\<^verbatim>\<open>_request_query\<close>\<close>

datatype direction = Asc | Desc

text \<open>
  What \<^verbatim>\<open>{'asc': asc, 'desc': desc}.get(order.lower(), 'asc')\<close> returns: one of the two
  sqlalchemy functions, or the default, which is the string \<^verbatim>\<open>'asc'\<close>.
\<close>

datatype order_obj = Func direction | Str string

definition get_order :: "string \<Rightarrow> order_obj" where
  "get_order order =
     (case map_of [(''asc'', Func Asc), (''desc'', Func Desc)] (lower order) of
        Some f \<Rightarrow> f
      | None \<Rightarrow> Str ''asc'')"

text \<open>\<^verbatim>\<open>order(column)\<close>: calling a string raises \<^verbatim>\<open>TypeError\<close>.\<close>

fun call_order :: "order_obj \<Rightarrow> string \<Rightarrow> exn + (direction \<times> string)" where
  "call_order (Func d) column = Inr (d, column)"
| "call_order (Str s) column =
     Inl (TypeError ([CHR 0x27] @ ''str'' @ [CHR 0x27] @ '' object is not callable''))"

record select_args =
  limit :: "int option"
  offset :: "int option"
  order_by :: "(direction \<times> string) list"

text \<open>The keyword arguments \<^verbatim>\<open>**queryargs\<close>; the callers pass \<^verbatim>\<open>limit\<close> and \<^verbatim>\<open>offset\<close> or nothing.\<close>

record queryargs =
  q_limit :: "int option"
  q_offset :: "int option"

definition no_queryargs :: queryargs where
  "no_queryargs = \<lparr>q_limit = None, q_offset = None\<rparr>"

fun sort_loop :: "string list \<Rightarrow> (direction \<times> string) list \<Rightarrow> exn + (direction \<times> string) list" where
  "sort_loop [] sorts = Inr sorts"
| "sort_loop (srt # rest) sorts =
     (if CHR '':'' \<notin> set srt
      then Inl (abort ''Invalid sorting format, use: order:column'' 400)
      else (case split_colon srt of (order, column) \<Rightarrow>
              (case call_order (get_order order) column of
                 Inl e \<Rightarrow> Inl e
               | Inr s \<Rightarrow> sort_loop rest (sorts @ [s]))))"

text \<open>
  The two conversions sit in one \<^verbatim>\<open>try\<close>: \<^verbatim>\<open>_limit\<close> is popped and converted first, and
  a \<^verbatim>\<open>ValueError\<close> of either becomes the 400 response \<^verbatim>\<open>'Invalid value: %s' % ve\<close>.
\<close>

definition pop_int ::
  "(string \<Rightarrow> string + int) \<Rightarrow> string \<Rightarrow> params \<Rightarrow> string + (int option \<times> params)" where
  "pop_int py_int k ps =
     (if contains k ps
      then (case pop k ps of (v, ps') \<Rightarrow>
              (case py_int (case v of Some s \<Rightarrow> s | None \<Rightarrow> []) of
                 Inl ve \<Rightarrow> Inl ve
               | Inr n \<Rightarrow> Inr (Some n, ps')))
      else Inr (None, ps))"

definition update_args :: "select_args \<Rightarrow> queryargs \<Rightarrow> select_args" where
  "update_args args qa =
     args\<lparr>limit := (case q_limit qa of Some l \<Rightarrow> Some l | None \<Rightarrow> limit args),
          offset := (case q_offset qa of Some off \<Rightarrow> Some off | None \<Rightarrow> offset args)\<rparr>"

text \<open>
  The result is the remaining parameters and what the closure \<^verbatim>\<open>_query\<close> captured: the
  arguments of the \<^verbatim>\<open>select\<close>.
\<close>

definition request_query ::
  "(string \<Rightarrow> string + int) \<Rightarrow> params \<Rightarrow> queryargs \<Rightarrow> exn + (params \<times> select_args)" where
  "request_query py_int ps0 qa =
     (case pop_int py_int ''_limit'' ps0 of
        Inl ve \<Rightarrow> Inl (abort (''Invalid value: '' @ ve) 400)
      | Inr (lim, ps1) \<Rightarrow>
          (case pop_int py_int ''_offset'' ps1 of
             Inl ve \<Rightarrow> Inl (abort (''Invalid value: '' @ ve) 400)
           | Inr (off, ps2) \<Rightarrow>
               (case poplist ''_sort'' ps2 of (sort_values, ps3) \<Rightarrow>
                  (case sort_loop sort_values [] of
                     Inl e \<Rightarrow> Inl e
                   | Inr sorts \<Rightarrow>
                       Inr (ps3, update_args \<lparr>limit = lim, offset = off, order_by = sorts\<rparr> qa)))))"

subsection \<open>Tables and the database\<close>

record table =
  columns :: "string list"
  rows :: "row list"

text \<open>
  Modelled from the spec: the database handle that \<^verbatim>\<open>app.db_factory.create(database)\<close>
  returns (not part of \<^verbatim>\<open>web.py\<close>), the tables by name. A table "may or may not exist":
  \<^verbatim>\<open>table in db\<close> is the spec's \<^verbatim>\<open>exists()\<close>, and \<^verbatim>\<open>db[table]\<close> hands out the named table,
  a new one without columns and rows when \<^verbatim>\<open>create_named\<close> asks for a name that is free.
\<close>

type_synonym database = "string \<rightharpoonup> table"

definition new_table :: table where
  "new_table = \<lparr>columns = [], rows = []\<rparr>"

definition getitem :: "database \<Rightarrow> string \<Rightarrow> table" where
  "getitem db name = (case db name of Some t \<Rightarrow> t | None \<Rightarrow> new_table)"

text \<open>
  Modelled from the spec: \<^verbatim>\<open>add_row\<close> of the table handle (the table class is not part
  of \<^verbatim>\<open>web.py\<close>). It "appends one row; skips silently if the row is empty (no
  columns)". The schema is discovered from the data, so columns the table has not seen
  are added to it.
\<close>

definition add_row :: "table \<Rightarrow> row \<Rightarrow> table" where
  "add_row t r =
     (if r = [] then t
      else \<lparr>columns = columns t @ filter (\<lambda>k. k \<notin> set (columns t)) (remdups (map fst r)),
            rows = rows t @ [r]\<rparr>)"

text \<open>
  Modelled from the spec: \<^verbatim>\<open>update_row\<close> of the table handle, the matching half of the
  spec's \<^verbatim>\<open>upsertRow\<close>. It "attempts to locate exactly one existing row whose values at
  those columns match row's values; if found, updates all other columns"; "if
  uniqueColumns is empty ... no matching is attempted"; it "returns whether an update
  (vs insert) occurred". The insert on \<open>False\<close> is the handler's own \<^verbatim>\<open>add_row\<close>.
  First its parts: a stored row agrees with the posted one on every unique column
  (a column that a row lacks is \<^verbatim>\<open>None\<close> there); the columns of the posted row other than
  the unique ones overwrite the stored row; the positions of the stored rows that agree.
\<close>

definition matches :: "string list \<Rightarrow> row \<Rightarrow> row \<Rightarrow> bool" where
  "matches unique r existing = list_all (\<lambda>u. map_of existing u = map_of r u) unique"

fun overwrite :: "string list \<Rightarrow> row \<Rightarrow> row \<Rightarrow> row" where
  "overwrite unique existing [] = existing"
| "overwrite unique existing ((k, v) # r) =
     (if k \<in> set unique then overwrite unique existing r
      else AList.update k v (overwrite unique existing r))"

definition match_indices :: "string list \<Rightarrow> row \<Rightarrow> row list \<Rightarrow> nat list" where
  "match_indices unique r xs = filter (\<lambda>i. matches unique r (xs ! i)) [0..<length xs]"

text \<open>
  Modelled from the spec: \<^verbatim>\<open>update_row\<close> itself. Exactly one stored row agrees: it is
  updated in place. None or several agree, or there is no unique column: nothing is
  updated and the answer is \<open>False\<close>.
\<close>

definition update_row :: "table \<Rightarrow> string list \<Rightarrow> row \<Rightarrow> bool \<times> table" where
  "update_row t unique r =
     (if unique = [] then (False, t)
      else (case match_indices unique r (rows t) of
              [i] \<Rightarrow> (True,
                       \<lparr>columns = columns t @ filter (\<lambda>k. k \<notin> set (columns t)) (remdups (map fst r)),
                        rows = (rows t)[i := overwrite unique (rows t ! i) r]\<rparr>)
            | _ \<Rightarrow> (False, t)))"

text \<open>
  Modelled from the spec: \<^verbatim>\<open>drop\<close> and \<^verbatim>\<open>commit\<close> of the table handle. What a handler holds
  before the commit is the table it has written to, or nothing once it has dropped it:
  \<^verbatim>\<open>drop\<close> "deletes the table structure and all its data". \<^verbatim>\<open>commit\<close> "durably persists
  pending writes": what the handler holds is what the database has under the name.
\<close>

definition drop_table :: "table \<Rightarrow> table option" where
  "drop_table t = None"

definition commit :: "database \<Rightarrow> string \<Rightarrow> table option \<Rightarrow> database" where
  "commit db name pending = db(name := pending)"

subsection \<open>Predicates and the execution of a select\<close>

text \<open>
  The \<^verbatim>\<open>whereclause\<close> handed to \<^verbatim>\<open>_query\<close>: the empty string of the row endpoint, or the
  clause built from the filter parameters.
\<close>

datatype whereclause = EmptyString | Clause "(string \<times> string) list"

text \<open>
  Modelled from the spec: \<^verbatim>\<open>args_to_clause\<close> of the table handle (the spec's
  \<^verbatim>\<open>buildPredicate\<close>): "for each key, resolves it against known columns; an unknown
  column name fails". The failure is the \<^verbatim>\<open>KeyError\<close> the handler catches; \<open>Inl\<close> holds
  its text. The spec does not give the text: here it is the name of the first unknown
  column.
\<close>

definition args_to_clause :: "table \<Rightarrow> params \<Rightarrow> string + whereclause" where
  "args_to_clause t ps =
     (case filter (\<lambda>k. k \<notin> set (columns t)) (map fst ps) of
        [] \<Rightarrow> Inr (Clause ps)
      | k # _ \<Rightarrow> Inl k)"

text \<open>
  Modelled from the spec: the execution of \<^verbatim>\<open>table.select(whereclause, limit, offset,
  order_by)\<close> by the backend (the spec's \<^verbatim>\<open>query\<close>), which is outside \<^verbatim>\<open>web.py\<close>. First its
  parts. The value of a row at a column is \<^verbatim>\<open>NULL\<close> when the row lacks the column. A
  filter parameter is an equality on its column ("interpreted as equality"): the value
  there, an integer in decimal digits, is the parameter's text; the empty
  \<^verbatim>\<open>whereclause\<close> holds for every row. Values are ordered \<^verbatim>\<open>NULL\<close>, integers, strings;
  the spec leaves the order of values to the backend.
\<close>

definition cell :: "row \<Rightarrow> string \<Rightarrow> val" where
  "cell r c = (case map_of r c of Some v \<Rightarrow> v | None \<Rightarrow> VNull)"

fun show_nat :: "nat \<Rightarrow> string" where
  "show_nat n =
     (if n < 10 then [char_of (48 + n)] else show_nat (n div 10) @ [char_of (48 + n mod 10)])"

declare show_nat.simps [simp del]

definition show_int :: "int \<Rightarrow> string" where
  "show_int i = (if i < 0 then CHR ''-'' # show_nat (nat (- i)) else show_nat (nat i))"

fun val_matches :: "val \<Rightarrow> string \<Rightarrow> bool" where
  "val_matches VNull s = False"
| "val_matches (VInt n) s = (show_int n = s)"
| "val_matches (VStr x) s = (x = s)"

fun holds :: "whereclause \<Rightarrow> row \<Rightarrow> bool" where
  "holds EmptyString r = True"
| "holds (Clause ps) r = list_all (\<lambda>(c, s). val_matches (cell r c) s) ps"

fun str_le :: "string \<Rightarrow> string \<Rightarrow> bool" where
  "str_le [] ys = True"
| "str_le (x # xs) [] = False"
| "str_le (x # xs) (y # ys) =
     ((of_char x :: nat) < of_char y \<or> (x = y \<and> str_le xs ys))"

fun val_le :: "val \<Rightarrow> val \<Rightarrow> bool" where
  "val_le VNull b = True"
| "val_le (VInt a) VNull = False"
| "val_le (VInt a) (VInt b) = (a \<le> b)"
| "val_le (VInt a) (VStr b) = True"
| "val_le (VStr a) (VStr b) = str_le a b"
| "val_le (VStr a) b = False"

text \<open>The composite ordering: the first sort decides, a tie goes to the next one.\<close>

fun row_le :: "(direction \<times> string) list \<Rightarrow> row \<Rightarrow> row \<Rightarrow> bool" where
  "row_le [] a b = True"
| "row_le ((d, c) # ss) a b =
     (if cell a c = cell b c then row_le ss a b
      else (case d of Asc \<Rightarrow> val_le (cell a c) (cell b c)
                    | Desc \<Rightarrow> val_le (cell b c) (cell a c)))"

fun insert_row :: "(direction \<times> string) list \<Rightarrow> row \<Rightarrow> row list \<Rightarrow> row list" where
  "insert_row ss x [] = [x]"
| "insert_row ss x (y # ys) =
     (if row_le ss x y then x # y # ys else y # insert_row ss x ys)"

definition sort_rows :: "(direction \<times> string) list \<Rightarrow> row list \<Rightarrow> row list" where
  "sort_rows ss xs = foldr (insert_row ss) xs []"

text \<open>What \<^verbatim>\<open>bind.execute\<close> returns: the column names and the fetched tuples.\<close>

record result_proxy =
  keys :: "string list"
  fetched :: "val list list"

text \<open>
  Modelled from the spec: the select itself. The rows the predicate holds for, in the
  composite order of the sorts ("ordered primarily by col1 ..., ties broken by col2"),
  then \<^verbatim>\<open>offset\<close> rows skipped and at most \<^verbatim>\<open>limit\<close> rows returned ("the number of rows
  returned is min(limit, availableRows - offset)"), each as the tuple of its values at
  the table's columns. A sort on a column the table does not have is a "backend
  execution error". The spec gives paging for values from 0 on; a negative one counts
  as 0 here.
\<close>

definition select_execute :: "table \<Rightarrow> whereclause \<Rightarrow> select_args \<Rightarrow> exn + result_proxy" where
  "select_execute t w args =
     (case filter (\<lambda>c. c \<notin> set (columns t)) (map snd (order_by args)) of
        c # _ \<Rightarrow> Inl (OperationalError (''no such column: '' @ c))
      | [] \<Rightarrow>
          (let sorted = sort_rows (order_by args) (filter (holds w) (rows t));
               skipped = (case offset args of None \<Rightarrow> sorted | Some off \<Rightarrow> drop (nat off) sorted);
               page = (case limit args of None \<Rightarrow> skipped | Some l \<Rightarrow> take (nat l) skipped)
           in Inr \<lparr>keys = columns t, fetched = map (\<lambda>r. map (cell r) (columns t)) page\<rparr>))"

text \<open>The closure \<^verbatim>\<open>_query\<close> of \<^verbatim>\<open>_request_query\<close>, with the arguments it captured.\<close>

definition query :: "table \<Rightarrow> select_args \<Rightarrow> whereclause \<Rightarrow> exn + result_proxy" where
  "query t args w =
     (case select_execute t w args of
        Inl (OperationalError oe) \<Rightarrow> Inl (abort (''Invalid query: '' @ oe) 400)
      | Inl e \<Rightarrow> Inl e
      | Inr rp \<Rightarrow> Inr rp)"

text \<open>\<^verbatim>\<open>dict(pairs)\<close>: a later pair with the same key replaces the value.\<close>

definition py_dict :: "(string \<times> val) list \<Rightarrow> row" where
  "py_dict ps = fold (\<lambda>(k, v). AList.update k v) ps []"

definition result_proxy_iterator :: "result_proxy \<Rightarrow> row list" where
  "result_proxy_iterator rp = map (\<lambda>r. py_dict (zip (keys rp) r)) (fetched rp)"

subsection \<open>The handlers\<close>

text \<open>\<^verbatim>\<open>url_for('read', database=..., table=...)\<close> with the rule \<^verbatim>\<open>/db/<database>/<table>\<close>.\<close>

definition url_for_read :: "string \<Rightarrow> string \<Rightarrow> string" where
  "url_for_read database name = ''/db/'' @ database @ ''/'' @ name"

text \<open>\<^verbatim>\<open>_get_table\<close>: the named table, or the 404 response raised.\<close>

definition get_table :: "database \<Rightarrow> string \<Rightarrow> exn + table" where
  "get_table db name =
     (if db name = None then Inl (abort (''No such table: '' @ name) 404)
      else Inr (getitem db name))"

text \<open>
  \<^verbatim>\<open>sql\<close>: the engine that runs the statement is outside \<^verbatim>\<open>web.py\<close> and is a parameter; it
  returns a result and the database after the statement, or raises.
\<close>

definition sql ::
  "(database \<Rightarrow> string \<Rightarrow> exn + (result_proxy \<times> database)) \<Rightarrow> database \<Rightarrow> string \<Rightarrow> string
     \<Rightarrow> (exn + response) \<times> database" where
  "sql engine_execute db content_type data =
     (if content_type \<noteq> ''text/sql''
      then (Inl (abort ''Only text/sql content is supported'' 400), db)
      else (case engine_execute db data of
              Inl e \<Rightarrow> (Inl e, db)
            | Inr (results, db') \<Rightarrow>
                (Inr (render_table (result_proxy_iterator results) (keys results)), db')))"

text \<open>
  \<^verbatim>\<open>create_named\<close>: the 409 message for a table that exists is returned before anything
  is written. \<open>reader\<close> is the rows \<^verbatim>\<open>read_request\<close> decoded from the body; \<open>create_body\<close> is
  the body of the loop over them.
\<close>

definition create_body :: "table \<Rightarrow> row \<Rightarrow> table" where
  "create_body t r = (if length (map fst r) \<noteq> 0 then add_row t r else t)"

definition create_named :: "database \<Rightarrow> string \<Rightarrow> string \<Rightarrow> row list \<Rightarrow> response \<times> database" where
  "create_named db database name reader =
     (if db name \<noteq> None
      then (render_message (''Table already exists: '' @ name) ''error'' 409
              (Some (url_for_read database name)), db)
      else (let t = fold (\<lambda>r t. create_body t r) reader (getitem db name)
            in (render_message (''Successfully created: '' @ name) ''success'' 201
                  (Some (url_for_read database name)), commit db name (Some t))))"

definition create :: "database \<Rightarrow> string \<Rightarrow> params \<Rightarrow> row list \<Rightarrow> response \<times> database" where
  "create db database args reader =
     (if \<not> contains ''table'' args
      then (render_message ''Missing argument: table'' ''error'' 400 None, db)
      else create_named db database (case map_of args ''table'' of Some n \<Rightarrow> n | None \<Rightarrow> []) reader)"

text \<open>
  \<^verbatim>\<open>read\<close>: the \<^verbatim>\<open>KeyError\<close> of \<^verbatim>\<open>args_to_clause\<close> is caught and answered with a 400
  message, which is returned, not raised.
\<close>

definition read ::
  "(string \<Rightarrow> string + int) \<Rightarrow> database \<Rightarrow> string \<Rightarrow> params \<Rightarrow> exn + response" where
  "read py_int db name args =
     (case get_table db name of
        Inl e \<Rightarrow> Inl e
      | Inr t \<Rightarrow>
          (case request_query py_int args no_queryargs of
             Inl e \<Rightarrow> Inl e
           | Inr (ps, qargs) \<Rightarrow>
               (case args_to_clause t ps of
                  Inl ke \<Rightarrow> Inr (render_message (''Invalid filter: '' @ ke) ''error'' 400 None)
                | Inr clause \<Rightarrow>
                    (case query t qargs clause of
                       Inl e \<Rightarrow> Inl e
                     | Inr results \<Rightarrow>
                         Inr (render_table (result_proxy_iterator results) (keys results))))))"

text \<open>
  \<^verbatim>\<open>row\<close>: a \<^verbatim>\<open>ValueError\<close> of \<^verbatim>\<open>int(row)\<close> becomes the 400 response \<^verbatim>\<open>Invalid row ID\<close>; the
  response raised for the ordinal 0 is no \<^verbatim>\<open>ValueError\<close> and passes through the \<^verbatim>\<open>except\<close>.
  The keyword arguments \<^verbatim>\<open>limit=1, offset=row-1\<close> replace what the request's own \<^verbatim>\<open>_limit\<close>
  and \<^verbatim>\<open>_offset\<close> gave.
\<close>

definition row ::
  "(string \<Rightarrow> string + int) \<Rightarrow> database \<Rightarrow> string \<Rightarrow> string \<Rightarrow> params \<Rightarrow> exn + response" where
  "row py_int db name ordinal args =
     (case get_table db name of
        Inl e \<Rightarrow> Inl e
      | Inr t \<Rightarrow>
          (case py_int ordinal of
             Inl ve \<Rightarrow> Inl (abort (''Invalid row ID: '' @ ordinal) 400)
           | Inr n \<Rightarrow>
               if n = 0 then Inl (abort ''Starting at offset 1 to allow header row'' 400)
               else (case request_query py_int args \<lparr>q_limit = Some 1, q_offset = Some (n - 1)\<rparr> of
                       Inl e \<Rightarrow> Inl e
                     | Inr (ps, qargs) \<Rightarrow>
                         (case query t qargs EmptyString of
                            Inl e \<Rightarrow> Inl e
                          | Inr results \<Rightarrow>
                              Inr (render_table (result_proxy_iterator results) (keys results))))))"

text \<open>
  \<^verbatim>\<open>update\<close>: \<open>update_body\<close> is the body of the loop over the posted rows; an empty row is
  skipped, a row that \<^verbatim>\<open>update_row\<close> did not update is added.
\<close>

definition update_body :: "string list \<Rightarrow> table \<Rightarrow> row \<Rightarrow> table" where
  "update_body unique t r =
     (if \<not> (length (map fst r) \<noteq> 0) then t
      else (case update_row t unique r of
              (True, t') \<Rightarrow> t'
            | (False, t') \<Rightarrow> add_row t' r))"

definition update ::
  "database \<Rightarrow> string \<Rightarrow> string \<Rightarrow> params \<Rightarrow> row list \<Rightarrow> (exn + response) \<times> database" where
  "update db database name args reader =
     (case get_table db name of
        Inl e \<Rightarrow> (Inl e, db)
      | Inr t \<Rightarrow>
          (let unique = getlist ''unique'' args;
               t' = fold (\<lambda>r t. update_body unique t r) reader t
           in (Inr (render_message (''Table updated: '' @ name) ''success'' 201
                      (Some (url_for_read database name))), commit db name (Some t'))))"

text \<open>\<^verbatim>\<open>delete\<close>: the table is dropped, the drop committed, and the answer is 410.\<close>

definition delete :: "database \<Rightarrow> string \<Rightarrow> (exn + response) \<times> database" where
  "delete db name =
     (case get_table db name of
        Inl e \<Rightarrow> (Inl e, db)
      | Inr t \<Rightarrow>
          (Inr (render_message (''Table dropped: '' @ name) ''success'' 410 None),
           commit db name (drop_table t)))"

section \<open>Properties\<close>

subsection \<open>Sort directions\<close>

text \<open>
  Claim C2. The direction of a \<^verbatim>\<open>_sort\<close> value is looked up case-insensitively, and
  the claim has an unrecognised direction fall back to ascending. The fallback of the
  lookup is the string \<^verbatim>\<open>'asc'\<close>, not the function \<^verbatim>\<open>asc\<close>, and the next line calls it:
  the request \<^verbatim>\<open>_sort=up:name\<close> ends in a \<^verbatim>\<open>TypeError\<close>, while \<^verbatim>\<open>_sort=DeSc:name\<close> gives a
  descending sort on \<^verbatim>\<open>name\<close>.
\<close>

theorem sort_unrecognized_direction_raises:
  "request_query py_int [(''_sort'', ''up:name'')] no_queryargs
     = Inl (TypeError ([CHR 0x27] @ ''str'' @ [CHR 0x27] @ '' object is not callable''))
   \<and> request_query py_int [(''_sort'', ''DeSc:name'')] no_queryargs
     = Inr ([], \<lparr>limit = None, offset = None, order_by = [(Desc, ''name'')]\<rparr>)"
proof -
  have up: "lower ''up'' = ''up''" by code_simp
  have de: "lower ''DeSc'' = ''desc''" by code_simp
  show ?thesis
    using up de
    by (simp add: request_query_def pop_int_def contains_def poplist_def split_colon_def
          get_order_def update_args_def no_queryargs_def)
qed

subsection \<open>Creating a table that exists\<close>

text \<open>
  Claim C6. A create request that names a table of the database answers 409 with the
  URL of the table's read endpoint, whatever rows were posted, and the database is the
  one it was before.
\<close>

theorem create_existing_conflict:
  assumes "db name = Some t"
  shows "create_named db database name reader =
           (Message \<lparr>state = ''error'', message = ''Table already exists: '' @ name,
                     code = 409, url = Some (''/db/'' @ database @ ''/'' @ name)\<rparr>, db)"
  using assms by (simp add: create_named_def render_message_def url_for_read_def)

theorem create_existing_conflict_witness:
  "create_named [''t'' \<mapsto> \<lparr>columns = [''id''], rows = [[(''id'', VInt 1)]]\<rparr>] ''d'' ''t''
       [[(''id'', VInt 2)]] =
     (Message \<lparr>state = ''error'', message = ''Table already exists: t'',
               code = 409, url = Some ''/db/d/t''\<rparr>,
      [''t'' \<mapsto> \<lparr>columns = [''id''], rows = [[(''id'', VInt 1)]]\<rparr>])"
  using create_existing_conflict
          [of "[''t'' \<mapsto> \<lparr>columns = [''id''], rows = [[(''id'', VInt 1)]]\<rparr>]" "''t''"
              "\<lparr>columns = [''id''], rows = [[(''id'', VInt 1)]]\<rparr>" "''d''" "[[(''id'', VInt 2)]]"]
  by simp

subsection \<open>Reading a dropped table\<close>

text \<open>
  Claim C8. Deleting a table of the database answers that the table was dropped, and
  in the database the delete leaves, every read of that table, with any query
  parameters, raises the 404 response of \<^verbatim>\<open>_get_table\<close>.
\<close>

theorem delete_then_read_404:
  assumes "db name = Some t"
  shows "fst (delete db name) =
           Inr (Message \<lparr>state = ''success'', message = ''Table dropped: '' @ name,
                         code = 410, url = None\<rparr>)
         \<and> (\<forall>args. read py_int (snd (delete db name)) name args =
              Inl (WebstoreException
                     (Message \<lparr>state = ''error'', message = ''No such table: '' @ name,
                               code = 404, url = None\<rparr>)))"
  using assms
  by (simp add: delete_def read_def get_table_def getitem_def drop_table_def commit_def abort_def
        render_message_def)

theorem delete_then_read_404_witness:
  "fst (delete [''t'' \<mapsto> \<lparr>columns = [''id''], rows = [[(''id'', VInt 1)]]\<rparr>] ''t'') =
     Inr (Message \<lparr>state = ''success'', message = ''Table dropped: t'', code = 410, url = None\<rparr>)
   \<and> read (\<lambda>s. if s = ''1'' then Inr 1 else Inl ''invalid literal for int()'')
        (snd (delete [''t'' \<mapsto> \<lparr>columns = [''id''], rows = [[(''id'', VInt 1)]]\<rparr>] ''t'')) ''t''
        [(''id'', ''1'')] =
     Inl (WebstoreException
            (Message \<lparr>state = ''error'', message = ''No such table: t'', code = 404, url = None\<rparr>))"
  using delete_then_read_404
          [of "[''t'' \<mapsto> \<lparr>columns = [''id''], rows = [[(''id'', VInt 1)]]\<rparr>]" "''t''"
              "\<lparr>columns = [''id''], rows = [[(''id'', VInt 1)]]\<rparr>"
              "\<lambda>s. if s = ''1'' then Inr 1 else Inl ''invalid literal for int()''"]
  by simp

subsection \<open>The SQL endpoint\<close>

text \<open>
  Claim C10. A PUT on a database whose content type is not \<^verbatim>\<open>text/sql\<close> raises the 400
  response and leaves the database alone. With \<^verbatim>\<open>text/sql\<close> the engine is given the
  request body as it is, and the rows it returns are rendered as a table, each row the
  dictionary of the column names and its values; what the engine raises is passed on.
\<close>

theorem sql_put:
  "(content_type \<noteq> ''text/sql'' \<longrightarrow>
      sql engine db content_type data =
        (Inl (WebstoreException
                (Message \<lparr>state = ''error'', message = ''Only text/sql content is supported'',
                          code = 400, url = None\<rparr>)), db))
   \<and> (engine db data = Inr (rp, db') \<longrightarrow>
        sql engine db ''text/sql'' data =
          (Inr (TablePayload (keys rp) (map (\<lambda>r. py_dict (zip (keys rp) r)) (fetched rp))), db'))
   \<and> (engine db data = Inl e \<longrightarrow> sql engine db ''text/sql'' data = (Inl e, db))"
  by (simp add: sql_def abort_def render_message_def render_table_def result_proxy_iterator_def)

theorem sql_put_witness:
  "sql (\<lambda>db s. if s = ''select 1 as a'' then Inr (\<lparr>keys = [''a''], fetched = [[VInt 1]]\<rparr>, db)
                else Inl (OperationalError s))
       Map.empty ''text/csv'' ''select 1 as a'' =
     (Inl (WebstoreException
             (Message \<lparr>state = ''error'', message = ''Only text/sql content is supported'',
                       code = 400, url = None\<rparr>)), Map.empty)
   \<and> sql (\<lambda>db s. if s = ''select 1 as a'' then Inr (\<lparr>keys = [''a''], fetched = [[VInt 1]]\<rparr>, db)
                  else Inl (OperationalError s))
       Map.empty ''text/sql'' ''select 1 as a'' =
     (Inr (TablePayload [''a''] [[(''a'', VInt 1)]]), Map.empty)
   \<and> sql (\<lambda>db s. if s = ''select 1 as a'' then Inr (\<lparr>keys = [''a''], fetched = [[VInt 1]]\<rparr>, db)
                  else Inl (OperationalError s))
       Map.empty ''text/sql'' ''x'' =
     (Inl (OperationalError ''x''), Map.empty)"
  using sql_put
          [of "''text/csv''"
              "\<lambda>db s. if s = ''select 1 as a'' then Inr (\<lparr>keys = [''a''], fetched = [[VInt 1]]\<rparr>, db)
                       else Inl (OperationalError s)"
              Map.empty "''select 1 as a''" "\<lparr>keys = [''a''], fetched = [[VInt 1]]\<rparr>" Map.empty
              "OperationalError ''x''"]
        sql_put
          [of "''text/csv''"
              "\<lambda>db s. if s = ''select 1 as a'' then Inr (\<lparr>keys = [''a''], fetched = [[VInt 1]]\<rparr>, db)
                       else Inl (OperationalError s)"
              Map.empty "''x''" "\<lparr>keys = [''a''], fetched = [[VInt 1]]\<rparr>" Map.empty
              "OperationalError ''x''"]
  by (simp add: py_dict_def)

subsection \<open>Empty rows\<close>

lemma create_body_empty: "create_body t [] = t"
  by (simp add: create_body_def)

lemma update_body_empty: "update_body unique t [] = t"
  by (simp add: update_body_def)

lemma fold_create_body_filter:
  "fold (\<lambda>r t. create_body t r) (filter (\<lambda>r. r \<noteq> []) reader) t
     = fold (\<lambda>r t. create_body t r) reader t"
  by (induction reader arbitrary: t) (simp_all add: create_body_empty)

lemma fold_update_body_filter:
  "fold (\<lambda>r t. update_body unique t r) (filter (\<lambda>r. r \<noteq> []) reader) t
     = fold (\<lambda>r t. update_body unique t r) reader t"
  by (induction reader arbitrary: t) (simp_all add: update_body_empty)

text \<open>
  Claim C9. In a create and in an upsert batch the empty rows are skipped: the handler
  does for the posted rows what it does for the non-empty ones among them, in their
  order. One step of either loop on an empty row returns the table it was given.
\<close>

theorem empty_rows_skipped:
  "create_named db database name reader
     = create_named db database name (filter (\<lambda>r. r \<noteq> []) reader)
   \<and> update db database name args reader
     = update db database name args (filter (\<lambda>r. r \<noteq> []) reader)
   \<and> create_body t [] = t
   \<and> update_body unique t [] = t"
  by (simp add: create_named_def update_def fold_create_body_filter fold_update_body_filter
        create_body_empty update_body_empty split: sum.splits)

theorem empty_rows_skipped_witness:
  "update [''t'' \<mapsto> \<lparr>columns = [''id''], rows = [[(''id'', VInt 1)]]\<rparr>] ''d'' ''t''
       [(''unique'', ''id'')] [[], [(''id'', VInt 2)], []]
     = update [''t'' \<mapsto> \<lparr>columns = [''id''], rows = [[(''id'', VInt 1)]]\<rparr>] ''d'' ''t''
         [(''unique'', ''id'')] [[(''id'', VInt 2)]]
   \<and> create_named Map.empty ''d'' ''t'' [[], [(''id'', VInt 2)], []]
     = create_named Map.empty ''d'' ''t'' [[(''id'', VInt 2)]]
   \<and> update_body [''id''] \<lparr>columns = [''id''], rows = [[(''id'', VInt 1)]]\<rparr> []
     = \<lparr>columns = [''id''], rows = [[(''id'', VInt 1)]]\<rparr>"
  using empty_rows_skipped
          [of "[''t'' \<mapsto> \<lparr>columns = [''id''], rows = [[(''id'', VInt 1)]]\<rparr>]" "''d''" "''t''"
              "[[], [(''id'', VInt 2)], []]" "[(''unique'', ''id'')]"
              "\<lparr>columns = [''id''], rows = [[(''id'', VInt 1)]]\<rparr>" "[''id'']"]
        empty_rows_skipped
          [of Map.empty "''d''" "''t''" "[[], [(''id'', VInt 2)], []]" "[]" new_table "[]"]
  by simp

subsection \<open>Upsert\<close>

lemma map_of_overwrite:
  "map_of (overwrite unique ex r) k =
     (if k \<in> set unique then map_of ex k
      else (case map_of r k of Some v \<Rightarrow> Some v | None \<Rightarrow> map_of ex k))"
  by (induction unique ex r rule: overwrite.induct) (auto simp: update_conv')

lemma update_body_unique_empty:
  "r \<noteq> [] \<Longrightarrow> rows (update_body [] t r) = rows t @ [r]"
  by (simp add: update_body_def update_row_def add_row_def)

lemma update_body_no_match:
  "r \<noteq> [] \<Longrightarrow> match_indices unique r (rows t) = [] \<Longrightarrow> rows (update_body unique t r) = rows t @ [r]"
  by (simp add: update_body_def update_row_def add_row_def)

lemma update_body_one_match:
  "r \<noteq> [] \<Longrightarrow> unique \<noteq> [] \<Longrightarrow> match_indices unique r (rows t) = [i] \<Longrightarrow>
     rows (update_body unique t r) = (rows t)[i := overwrite unique (rows t ! i) r]"
  by (simp add: update_body_def update_row_def)

lemma match_indices_bound:
  "match_indices unique r xs = [i] \<Longrightarrow> i < length xs"
proof -
  assume "match_indices unique r xs = [i]"
  then have "i \<in> set (filter (\<lambda>i. matches unique r (xs ! i)) [0..<length xs])"
    by (simp add: match_indices_def)
  then show ?thesis by simp
qed

lemma update_table:
  "db name = Some t \<Longrightarrow>
     snd (update db database name args reader) name
       = Some (fold (\<lambda>r t. update_body (getlist ''unique'' args) t r) reader t)"
  by (simp add: update_def get_table_def getitem_def commit_def Let_def)

lemma update_response:
  "db name = Some t \<Longrightarrow>
     fst (update db database name args reader)
       = Inr (Message \<lparr>state = ''success'', message = ''Table updated: '' @ name, code = 201,
                       url = Some (''/db/'' @ database @ ''/'' @ name)\<rparr>)"
  by (simp add: update_def get_table_def getitem_def Let_def render_message_def url_for_read_def)

text \<open>
  Claim C1. An upsert on a table of the database, at any row \<open>r\<close> of the batch that is
  not empty: \<open>t\<close> is the table after the rows posted before \<open>r\<close>, \<open>t'\<close> the table after
  \<open>r\<close>, \<open>unique\<close> the values of the \<^verbatim>\<open>unique\<close> parameter. When \<open>unique\<close> is not empty and
  exactly one row of \<open>t\<close>, the one at \<open>i\<close>, agrees with \<open>r\<close> on the unique columns, \<open>t'\<close>
  has as many rows as \<open>t\<close>, the same rows at the other positions, and at \<open>i\<close> the old
  row with every other column of \<open>r\<close> overwritten. When no row agrees, \<open>r\<close> is appended;
  when \<open>unique\<close> is empty, \<open>r\<close> is appended whatever the table holds. The request
  answers 201.
\<close>

theorem upsert_rows:
  assumes "db name = Some t0"
      and "snd (update db database name args xs) name = Some t"
      and "snd (update db database name args (xs @ [r])) name = Some t'"
      and "r \<noteq> []"
      and "unique = getlist ''unique'' args"
  shows "(unique \<noteq> [] \<and> match_indices unique r (rows t) = [i] \<longrightarrow>
            length (rows t') = length (rows t)
          \<and> (\<forall>j. j \<noteq> i \<longrightarrow> rows t' ! j = rows t ! j)
          \<and> (\<forall>k. map_of (rows t' ! i) k =
                 (if k \<in> set unique then map_of (rows t ! i) k
                  else (case map_of r k of Some v \<Rightarrow> Some v | None \<Rightarrow> map_of (rows t ! i) k))))
       \<and> (unique \<noteq> [] \<and> match_indices unique r (rows t) = [] \<longrightarrow> rows t' = rows t @ [r])
       \<and> (unique = [] \<longrightarrow> rows t' = rows t @ [r])
       \<and> fst (update db database name args (xs @ [r])) =
           Inr (Message \<lparr>state = ''success'', message = ''Table updated: '' @ name, code = 201,
                         url = Some (''/db/'' @ database @ ''/'' @ name)\<rparr>)"
proof -
  have t: "t = fold (\<lambda>r t. update_body unique t r) xs t0"
    using assms(1,2,5) by (simp add: update_table)
  have t': "t' = update_body unique t r"
    using assms(1,3,5) t by (simp add: update_table)
  have one: "rows t' = (rows t)[i := overwrite unique (rows t ! i) r]"
    if "unique \<noteq> []" "match_indices unique r (rows t) = [i]"
    using that assms(4) t' by (simp add: update_body_one_match)
  have A: "length (rows t') = length (rows t)
          \<and> (\<forall>j. j \<noteq> i \<longrightarrow> rows t' ! j = rows t ! j)
          \<and> (\<forall>k. map_of (rows t' ! i) k =
                 (if k \<in> set unique then map_of (rows t ! i) k
                  else (case map_of r k of Some v \<Rightarrow> Some v | None \<Rightarrow> map_of (rows t ! i) k)))"
    if u: "unique \<noteq> []" and m: "match_indices unique r (rows t) = [i]"
  proof -
    have i: "i < length (rows t)" using m by (rule match_indices_bound)
    show ?thesis
      using one[OF u m] i by (simp add: map_of_overwrite)
  qed
  have B: "rows t' = rows t @ [r]" if "match_indices unique r (rows t) = []"
    using that assms(4) t' by (simp add: update_body_no_match)
  have C: "rows t' = rows t @ [r]" if "unique = []"
    using that assms(4) t' by (simp add: update_body_unique_empty)
  have D: "fst (update db database name args (xs @ [r])) =
           Inr (Message \<lparr>state = ''success'', message = ''Table updated: '' @ name, code = 201,
                         url = Some (''/db/'' @ database @ ''/'' @ name)\<rparr>)"
    using assms(1) by (rule update_response)
  show ?thesis using A B C D by blast
qed

theorem upsert_rows_witness:
  "snd (update [''t'' \<mapsto> \<lparr>columns = [''id'', ''name''],
                          rows = [[(''id'', VInt 1), (''name'', VStr ''a'')]]\<rparr>]
          ''d'' ''t'' [(''unique'', ''id'')] [[(''id'', VInt 1), (''name'', VStr ''b'')]]) ''t''
     = Some \<lparr>columns = [''id'', ''name''], rows = [[(''id'', VInt 1), (''name'', VStr ''b'')]]\<rparr>
   \<and> length (rows \<lparr>columns = [''id'', ''name''],
                     rows = [[(''id'', VInt 1), (''name'', VStr ''b'')]]\<rparr>) = 1
   \<and> snd (update [''t'' \<mapsto> \<lparr>columns = [''id'', ''name''],
                            rows = [[(''id'', VInt 1), (''name'', VStr ''a'')]]\<rparr>]
          ''d'' ''t'' [(''unique'', ''id'')] [[(''id'', VInt 2), (''name'', VStr ''c'')]]) ''t''
     = Some \<lparr>columns = [''id'', ''name''],
             rows = [[(''id'', VInt 1), (''name'', VStr ''a'')],
                     [(''id'', VInt 2), (''name'', VStr ''c'')]]\<rparr>
   \<and> snd (update [''t'' \<mapsto> \<lparr>columns = [''id'', ''name''],
                            rows = [[(''id'', VInt 1), (''name'', VStr ''a'')]]\<rparr>]
          ''d'' ''t'' [] [[(''id'', VInt 1), (''name'', VStr ''b'')]]) ''t''
     = Some \<lparr>columns = [''id'', ''name''],
             rows = [[(''id'', VInt 1), (''name'', VStr ''a'')],
                     [(''id'', VInt 1), (''name'', VStr ''b'')]]\<rparr>"
proof -
  let ?t0 = "\<lparr>columns = [''id'', ''name''], rows = [[(''id'', VInt 1), (''name'', VStr ''a'')]]\<rparr>"
  let ?db = "[''t'' \<mapsto> ?t0]"
  let ?u = "[(''unique'', ''id'')]"
  let ?r1 = "[(''id'', VInt 1), (''name'', VStr ''b'')]"
  let ?r2 = "[(''id'', VInt 2), (''name'', VStr ''c'')]"
  let ?t1 = "\<lparr>columns = [''id'', ''name''], rows = [?r1]\<rparr>"
  let ?t2 = "\<lparr>columns = [''id'', ''name''], rows = [[(''id'', VInt 1), (''name'', VStr ''a'')], ?r2]\<rparr>"
  let ?t3 = "\<lparr>columns = [''id'', ''name''], rows = [[(''id'', VInt 1), (''name'', VStr ''a'')], ?r1]\<rparr>"
  have db: "?db ''t'' = Some ?t0" by simp
  have before: "snd (update ?db ''d'' ''t'' args []) ''t'' = Some ?t0" for args
    by (simp add: update_def get_table_def getitem_def commit_def)
  have a1: "snd (update ?db ''d'' ''t'' ?u ([] @ [?r1])) ''t'' = Some ?t1"
    by (simp add: update_def get_table_def getitem_def commit_def getlist_def update_body_def
          update_row_def match_indices_def matches_def)
  have a2: "snd (update ?db ''d'' ''t'' ?u ([] @ [?r2])) ''t'' = Some ?t2"
    by (simp add: update_def get_table_def getitem_def commit_def getlist_def update_body_def
          update_row_def match_indices_def matches_def add_row_def)
  have a3: "snd (update ?db ''d'' ''t'' [] ([] @ [?r1])) ''t'' = Some ?t3"
    by (simp add: update_def get_table_def getitem_def commit_def getlist_def update_body_def
          update_row_def add_row_def)
  have u: "[''id''] = getlist ''unique'' ?u" by (simp add: getlist_def)
  have e: "[] = getlist ''unique'' []" by (simp add: getlist_def)
  have m1: "match_indices [''id''] ?r1 (rows ?t0) = [0]"
    by (simp add: match_indices_def matches_def)
  have m2: "match_indices [''id''] ?r2 (rows ?t0) = []"
    by (simp add: match_indices_def matches_def)
  have "length (rows ?t1) = length (rows ?t0)"
    using upsert_rows [OF db before a1 _ u, of 0] m1 by simp
  moreover have "rows ?t2 = rows ?t0 @ [?r2]"
    using upsert_rows [OF db before a2 _ u, of 0] m2 by simp
  moreover have "rows ?t3 = rows ?t0 @ [?r1]"
    using upsert_rows [OF db before a3 _ e, of 0] by simp
  ultimately show ?thesis using a1 a2 a3 by simp
qed

subsection \<open>Limit and offset\<close>

lemma map_of_filter_other:
  "k' \<noteq> k \<Longrightarrow> map_of (filter (\<lambda>p. fst p \<noteq> k) ps) k' = map_of ps k'"
  by (induction ps) auto

lemma contains_map_of: "contains k ps \<longleftrightarrow> map_of ps k \<noteq> None"
  by (simp add: contains_def map_of_eq_None_iff)

lemma filter_absent_key:
  "map_of ps k = None \<Longrightarrow> filter (\<lambda>p. fst p \<noteq> k) ps = ps"
  by (induction ps) (auto split: if_splits)

lemma pop_int_absent:
  "map_of ps k = None \<Longrightarrow> pop_int py_int k ps = Inr (None, filter (\<lambda>p. fst p \<noteq> k) ps)"
  by (simp add: pop_int_def contains_map_of filter_absent_key)

lemma pop_int_present:
  "map_of ps k = Some v \<Longrightarrow>
     pop_int py_int k ps = (case py_int v of Inl ve \<Rightarrow> Inl ve
                            | Inr n \<Rightarrow> Inr (Some n, filter (\<lambda>p. fst p \<noteq> k) ps))"
  by (simp add: pop_int_def contains_map_of pop_def)

lemma pop_int_Inr:
  assumes "pop_int py_int k ps = Inr (x, ps')"
  shows "ps' = filter (\<lambda>p. fst p \<noteq> k) ps
         \<and> (case map_of ps k of None \<Rightarrow> x = None
             | Some v \<Rightarrow> (\<exists>n. py_int v = Inr n \<and> x = Some n))"
proof (cases "map_of ps k")
  case None
  then show ?thesis using assms by (simp add: pop_int_absent)
next
  case (Some v)
  then show ?thesis using assms by (auto simp: pop_int_present split: sum.splits)
qed

lemma request_query_Inr:
  assumes "request_query py_int ps qa = Inr (ps', args)"
  shows "ps' = filter (\<lambda>p. fst p \<noteq> ''_sort'')
                 (filter (\<lambda>p. fst p \<noteq> ''_offset'') (filter (\<lambda>p. fst p \<noteq> ''_limit'') ps))"
    and "case map_of ps ''_limit'' of None \<Rightarrow> True | Some v \<Rightarrow> (\<exists>n. py_int v = Inr n)"
    and "case map_of ps ''_offset'' of None \<Rightarrow> True | Some v \<Rightarrow> (\<exists>n. py_int v = Inr n)"
    and "\<exists>lim off sorts. args = update_args \<lparr>limit = lim, offset = off, order_by = sorts\<rparr> qa
           \<and> sort_loop (getlist ''_sort'' ps) [] = Inr sorts
           \<and> (case map_of ps ''_limit'' of None \<Rightarrow> lim = None
               | Some v \<Rightarrow> (\<exists>n. py_int v = Inr n \<and> lim = Some n))
           \<and> (case map_of ps ''_offset'' of None \<Rightarrow> off = None
               | Some v \<Rightarrow> (\<exists>n. py_int v = Inr n \<and> off = Some n))"
proof -
  from assms obtain lim ps1 where 1: "pop_int py_int ''_limit'' ps = Inr (lim, ps1)"
    by (auto simp: request_query_def split: sum.splits)
  from assms 1 obtain off ps2 where 2: "pop_int py_int ''_offset'' ps1 = Inr (off, ps2)"
    by (auto simp: request_query_def split: sum.splits)
  from assms 1 2 obtain sorts where
    3: "sort_loop (map snd (filter (\<lambda>p. fst p = ''_sort'') ps2)) [] = Inr sorts"
    and 4: "ps' = filter (\<lambda>p. fst p \<noteq> ''_sort'') ps2"
    and 5: "args = update_args \<lparr>limit = lim, offset = off, order_by = sorts\<rparr> qa"
    by (auto simp: request_query_def poplist_def split: sum.splits)
  note p1 = pop_int_Inr[OF 1] and p2 = pop_int_Inr[OF 2]
  have ps1: "ps1 = filter (\<lambda>p. fst p \<noteq> ''_limit'') ps" using p1 by simp
  have ps2: "ps2 = filter (\<lambda>p. fst p \<noteq> ''_offset'') ps1" using p2 by simp
  have off: "map_of ps1 ''_offset'' = map_of ps ''_offset''"
    unfolding ps1 by (rule map_of_filter_other) simp
  have srt: "filter (\<lambda>p. fst p = ''_sort'') ps2 = filter (\<lambda>p. fst p = ''_sort'') ps"
    unfolding ps2 ps1 by (induction ps) auto
  show "ps' = filter (\<lambda>p. fst p \<noteq> ''_sort'')
                 (filter (\<lambda>p. fst p \<noteq> ''_offset'') (filter (\<lambda>p. fst p \<noteq> ''_limit'') ps))"
    using 4 ps1 ps2 by simp
  show "case map_of ps ''_limit'' of None \<Rightarrow> True | Some v \<Rightarrow> (\<exists>n. py_int v = Inr n)"
    using p1 by (auto split: option.splits)
  show "case map_of ps ''_offset'' of None \<Rightarrow> True | Some v \<Rightarrow> (\<exists>n. py_int v = Inr n)"
    using p2 off by (auto split: option.splits)
  show "\<exists>lim off sorts. args = update_args \<lparr>limit = lim, offset = off, order_by = sorts\<rparr> qa
           \<and> sort_loop (getlist ''_sort'' ps) [] = Inr sorts
           \<and> (case map_of ps ''_limit'' of None \<Rightarrow> lim = None
               | Some v \<Rightarrow> (\<exists>n. py_int v = Inr n \<and> lim = Some n))
           \<and> (case map_of ps ''_offset'' of None \<Rightarrow> off = None
               | Some v \<Rightarrow> (\<exists>n. py_int v = Inr n \<and> off = Some n))"
    using 3 5 p1 p2 off srt
    by (intro exI[of _ lim] exI[of _ off] exI[of _ sorts]) (simp add: getlist_def)
qed






subsection \<open>The format of a sort value\<close>

lemma split_colon_first:
  "CHR '':'' \<notin> set d \<Longrightarrow> split_colon (d @ CHR '':'' # c) = (d, c)"
  by (induction d) (auto simp: split_colon_def)

lemma get_order_known:
  "lower order \<in> {''asc'', ''desc''} \<Longrightarrow> get_order order = Func (if lower order = ''asc'' then Asc else Desc)"
  by (auto simp: get_order_def)

lemma sort_loop_no_colon:
  assumes "\<forall>x\<in>set pre. CHR '':'' \<in> set x \<and> lower (fst (split_colon x)) \<in> {''asc'', ''desc''}"
      and "CHR '':'' \<notin> set s"
  shows "sort_loop (pre @ s # rest) acc = Inl (abort ''Invalid sorting format, use: order:column'' 400)"
  using assms
proof (induction pre arbitrary: acc)
  case Nil
  then show ?case by simp
next
  case (Cons x xs)
  then have x: "CHR '':'' \<in> set x" "lower (fst (split_colon x)) \<in> {''asc'', ''desc''}"
    by simp_all
  have "sort_loop ((x # xs) @ s # rest) acc
          = sort_loop (xs @ s # rest)
              (acc @ [(if lower (fst (split_colon x)) = ''asc'' then Asc else Desc, snd (split_colon x))])"
    using x by (cases "split_colon x") (simp add: get_order_known)
  then show ?case using Cons by simp
qed

text \<open>
  Claim C4, as amended. A \<^verbatim>\<open>_sort\<close> value needs at least one colon and is cut at the
  first one: whatever follows it, further colons included, is the column. The value
  \<open>s\<close> has no colon, and the \<^verbatim>\<open>_sort\<close> values before it are well formed with the
  direction \<^verbatim>\<open>asc\<close> or \<^verbatim>\<open>desc\<close> in any case of the letters: the request fails with a 400
  response.
\<close>

theorem sort_value_needs_colon:
  assumes "getlist ''_sort'' ps = pre @ s # rest"
      and "\<forall>x\<in>set pre. CHR '':'' \<in> set x \<and> lower (fst (split_colon x)) \<in> {''asc'', ''desc''}"
      and "CHR '':'' \<notin> set s"
  shows "(\<exists>msg. request_query py_int ps qa =
            Inl (WebstoreException
                   (Message \<lparr>state = ''error'', message = msg, code = 400, url = None\<rparr>)))
       \<and> (\<forall>d c. CHR '':'' \<notin> set d \<and> lower d \<in> {''asc'', ''desc''} \<longrightarrow>
             sort_loop [d @ CHR '':'' # c] [] = Inr [(if lower d = ''asc'' then Asc else Desc, c)])"
proof
  show "\<exists>msg. request_query py_int ps qa =
            Inl (WebstoreException
                   (Message \<lparr>state = ''error'', message = msg, code = 400, url = None\<rparr>))"
  proof (cases "pop_int py_int ''_limit'' ps")
    case (Inl ve)
    then show ?thesis by (simp add: request_query_def abort_def render_message_def)
  next
    case (Inr a)
    then obtain lim ps1 where 1: "pop_int py_int ''_limit'' ps = Inr (lim, ps1)" by (cases a) simp
    show ?thesis
    proof (cases "pop_int py_int ''_offset'' ps1")
      case (Inl ve)
      then show ?thesis using 1 by (simp add: request_query_def abort_def render_message_def)
    next
      case (Inr b)
      then obtain off ps2 where 2: "pop_int py_int ''_offset'' ps1 = Inr (off, ps2)"
        by (cases b) simp
      have ps1: "ps1 = filter (\<lambda>p. fst p \<noteq> ''_limit'') ps" using pop_int_Inr[OF 1] by simp
      have ps2: "ps2 = filter (\<lambda>p. fst p \<noteq> ''_offset'') ps1" using pop_int_Inr[OF 2] by simp
      have "filter (\<lambda>p. fst p = ''_sort'') ps2 = filter (\<lambda>p. fst p = ''_sort'') ps"
        unfolding ps2 ps1 by (induction ps) auto
      then have 3: "poplist ''_sort'' ps2 = (pre @ s # rest, filter (\<lambda>p. fst p \<noteq> ''_sort'') ps2)"
        using assms(1) by (simp add: poplist_def getlist_def)
      have "sort_loop (pre @ s # rest) []
              = Inl (abort ''Invalid sorting format, use: order:column'' 400)"
        using assms(2,3) by (rule sort_loop_no_colon)
      then show ?thesis
        using 1 2 3 by (simp add: request_query_def abort_def render_message_def)
    qed
  qed
  show "\<forall>d c. CHR '':'' \<notin> set d \<and> lower d \<in> {''asc'', ''desc''} \<longrightarrow>
             sort_loop [d @ CHR '':'' # c] [] = Inr [(if lower d = ''asc'' then Asc else Desc, c)]"
    by (auto simp: split_colon_first get_order_def)
qed

text \<open>
  The claim as it is written asks for exactly one colon. \<^verbatim>\<open>_sort=asc:a:b\<close> has two and
  is translated into an ascending sort on the column \<^verbatim>\<open>a:b\<close>. The request has no value
  for \<^verbatim>\<open>int()\<close>.
\<close>

theorem sort_two_colons_accepted:
  "request_query (\<lambda>s. Inl ''invalid literal for int()'') [(''_sort'', ''asc:a:b'')] no_queryargs
     = Inr ([], \<lparr>limit = None, offset = None, order_by = [(Asc, ''a:b'')]\<rparr>)"
  by (simp add: request_query_def pop_int_def contains_def poplist_def split_colon_def
        get_order_def lower_def lower_char_def update_args_def no_queryargs_def)

theorem sort_value_needs_colon_witness:
  "(\<exists>msg. request_query (\<lambda>s. Inl ''invalid literal for int()'')
            [(''_sort'', ''desc:a''), (''_sort'', ''name'')] no_queryargs =
            Inl (WebstoreException
                   (Message \<lparr>state = ''error'', message = msg, code = 400, url = None\<rparr>)))
   \<and> sort_loop [''asc'' @ CHR '':'' # ''a:b''] [] = Inr [(Asc, ''a:b'')]"
proof -
  have g: "getlist ''_sort'' [(''_sort'', ''desc:a''), (''_sort'', ''name'')] = [''desc:a''] @ ''name'' # []"
    by (simp add: getlist_def)
  have p: "\<forall>x\<in>set [''desc:a'']. CHR '':'' \<in> set x \<and> lower (fst (split_colon x)) \<in> {''asc'', ''desc''}"
    by (simp add: split_colon_def lower_def lower_char_def)
  have s: "CHR '':'' \<notin> set ''name''" by simp
  have l: "lower ''asc'' = ''asc''" by (simp add: lower_def lower_char_def)
  have c: "CHR '':'' \<notin> set ''asc''" by simp
  from sort_value_needs_colon
         [OF g p s, of "\<lambda>s. Inl ''invalid literal for int()''" no_queryargs]
  have "(\<exists>msg. request_query (\<lambda>s. Inl ''invalid literal for int()'')
            [(''_sort'', ''desc:a''), (''_sort'', ''name'')] no_queryargs =
            Inl (WebstoreException
                   (Message \<lparr>state = ''error'', message = msg, code = 400, url = None\<rparr>)))"
    and "CHR '':'' \<notin> set ''asc'' \<and> lower ''asc'' \<in> {''asc'', ''desc''} \<longrightarrow>
           sort_loop [''asc'' @ CHR '':'' # ''a:b''] [] =
             Inr [(if lower ''asc'' = ''asc'' then Asc else Desc, ''a:b'')]"
    by blast+
  then show ?thesis using l c by (simp del: sort_loop.simps)
qed

subsection \<open>Filters on unknown columns\<close>


lemma read_on_table:
  "db name = Some t \<Longrightarrow> get_table db name = Inr t"
  by (simp add: get_table_def getitem_def)




subsection \<open>Rows by ordinal\<close>

lemma length_insert_row: "length (insert_row ss x xs) = Suc (length xs)"
  by (induction xs) simp_all

lemma length_sort_rows: "length (sort_rows ss xs) = length xs"
  by (induction xs) (simp_all add: sort_rows_def length_insert_row)

lemma select_execute_beyond:
  assumes "set (map snd (order_by a)) \<subseteq> set (columns t)"
      and "offset a = Some off" and "int (length (rows t)) \<le> off"
  shows "select_execute t w a = Inr \<lparr>keys = columns t, fetched = []\<rparr>"
proof -
  have 1: "filter (\<lambda>c. c \<notin> set (columns t)) (map snd (order_by a)) = []"
    using assms(1) by (auto simp: filter_empty_conv)
  have "length (sort_rows (order_by a) (filter (holds w) (rows t))) \<le> length (rows t)"
    by (simp add: length_sort_rows)
  then have 2: "drop (nat off) (sort_rows (order_by a) (filter (holds w) (rows t))) = []"
    using assms(3) by simp
  show ?thesis
    using 1 2 assms(2) by (simp add: select_execute_def Let_def split: option.splits)
qed

lemma request_query_overrides:
  assumes "request_query py_int ps \<lparr>q_limit = Some l, q_offset = Some off\<rparr> = Inr (ps', a)"
  shows "limit a = Some l \<and> offset a = Some off"
  using request_query_Inr(4)[OF assms] by (auto simp: update_args_def)

text \<open>
  Claim C5, as amended. A read of the row with ordinal \<open>n\<close> of a table of the database.
  For \<open>n = 0\<close> it raises the 400 response, whatever the query parameters are. For
  another ordinal the query parameters of the request are translated first, and an
  error of the translation is raised in place of an answer. Once they translate, the
  read is the query with limit 1, offset \<open>n - 1\<close> and the empty \<^verbatim>\<open>whereclause\<close>, which
  holds for every row. When \<open>n\<close> is greater than the number of rows, the parameters
  translate and the sorts are on columns of the table, the answer is the table payload
  with the table's columns and no rows; so it is for the request without parameters.
\<close>

theorem row_by_ordinal:
  assumes "db name = Some t" and "py_int ordinal = Inr n"
  shows "(n = 0 \<longrightarrow>
            row py_int db name ordinal args =
              Inl (WebstoreException
                     (Message \<lparr>state = ''error'',
                               message = ''Starting at offset 1 to allow header row'',
                               code = 400, url = None\<rparr>)))
       \<and> (n \<noteq> 0
            \<and> request_query py_int args \<lparr>q_limit = Some 1, q_offset = Some (n - 1)\<rparr> = Inl e \<longrightarrow>
            row py_int db name ordinal args = Inl e)
       \<and> (n \<noteq> 0
            \<and> request_query py_int args \<lparr>q_limit = Some 1, q_offset = Some (n - 1)\<rparr> = Inr (ps, qargs) \<longrightarrow>
            limit qargs = Some 1 \<and> offset qargs = Some (n - 1) \<and> (\<forall>r. holds EmptyString r)
          \<and> row py_int db name ordinal args =
              (case query t qargs EmptyString of
                 Inl e \<Rightarrow> Inl e
               | Inr rp \<Rightarrow> Inr (TablePayload (keys rp) (result_proxy_iterator rp))))
       \<and> (int (length (rows t)) < n
            \<and> request_query py_int args \<lparr>q_limit = Some 1, q_offset = Some (n - 1)\<rparr> = Inr (ps, qargs)
            \<and> set (map snd (order_by qargs)) \<subseteq> set (columns t) \<longrightarrow>
            row py_int db name ordinal args = Inr (TablePayload (columns t) []))
       \<and> (int (length (rows t)) < n \<longrightarrow>
            row py_int db name ordinal [] = Inr (TablePayload (columns t) []))"
proof -
  have gt: "get_table db name = Inr t" using assms(1) by (rule read_on_table)
  have A: "row py_int db name ordinal args =
              Inl (WebstoreException
                     (Message \<lparr>state = ''error'',
                               message = ''Starting at offset 1 to allow header row'',
                               code = 400, url = None\<rparr>))" if "n = 0"
    using that gt assms(2) by (simp add: row_def abort_def render_message_def)
  have F: "row py_int db name ordinal args = Inl e"
    if "n \<noteq> 0" "request_query py_int args \<lparr>q_limit = Some 1, q_offset = Some (n - 1)\<rparr> = Inl e"
    using that gt assms(2) by (simp add: row_def)
  have B: "row py_int db name ordinal args =
              (case query t qargs EmptyString of
                 Inl e \<Rightarrow> Inl e
               | Inr rp \<Rightarrow> Inr (TablePayload (keys rp) (result_proxy_iterator rp)))"
    if "n \<noteq> 0"
      "request_query py_int args \<lparr>q_limit = Some 1, q_offset = Some (n - 1)\<rparr> = Inr (ps, qargs)"
    using that gt assms(2) by (simp add: row_def render_table_def split: sum.splits)
  have C: "row py_int db name ordinal args' = Inr (TablePayload (columns t) [])"
    if lt: "int (length (rows t)) < n"
      and rq: "request_query py_int args' \<lparr>q_limit = Some 1, q_offset = Some (n - 1)\<rparr>
                 = Inr (ps', qargs')"
      and srt: "set (map snd (order_by qargs')) \<subseteq> set (columns t)" for args' ps' qargs'
  proof -
    have "offset qargs' = Some (n - 1)" using request_query_overrides[OF rq] by simp
    moreover have "int (length (rows t)) \<le> n - 1" using lt by simp
    ultimately have "select_execute t EmptyString qargs' = Inr \<lparr>keys = columns t, fetched = []\<rparr>"
      using srt by (intro select_execute_beyond)
    then have "query t qargs' EmptyString = Inr \<lparr>keys = columns t, fetched = []\<rparr>"
      by (simp add: query_def)
    moreover have "n \<noteq> 0" using lt by auto
    ultimately show ?thesis
      using gt assms(2) rq
      by (simp add: row_def render_table_def result_proxy_iterator_def)
  qed
  have E: "request_query py_int [] \<lparr>q_limit = Some 1, q_offset = Some (n - 1)\<rparr>
             = Inr ([], \<lparr>limit = Some 1, offset = Some (n - 1), order_by = []\<rparr>)"
    by (simp add: request_query_def pop_int_def contains_def poplist_def update_args_def)
  have D: "row py_int db name ordinal [] = Inr (TablePayload (columns t) [])"
    if lt: "int (length (rows t)) < n"
    using C[OF lt E] by simp
  show ?thesis
    using A B C D F request_query_overrides[of py_int args 1 "n - 1" ps qargs] by simp
qed

text \<open>
  The claim as it is written has every read with an ordinal beyond the rows answer
  with zero rows. On a table of two rows, \<^verbatim>\<open>row/5?_sort=name\<close> raises the 400 response
  of the sort format: the query parameters of the request are translated before the
  query is made. \<^verbatim>\<open>int('5')\<close> is 5.
\<close>

theorem row_beyond_count_bad_sort:
  "row (\<lambda>s. if s = ''5'' then Inr 5 else Inl ''invalid literal for int()'')
       [''t'' \<mapsto> \<lparr>columns = [''id''], rows = [[(''id'', VInt 1)], [(''id'', VInt 2)]]\<rparr>] ''t''
       ''5'' [(''_sort'', ''name'')] =
     Inl (WebstoreException
            (Message \<lparr>state = ''error'', message = ''Invalid sorting format, use: order:column'',
                      code = 400, url = None\<rparr>))"
  by (simp add: row_def get_table_def getitem_def request_query_def pop_int_def contains_def
        poplist_def abort_def render_message_def)

text \<open>
  In the instances below \<^verbatim>\<open>int()\<close> is given on the ordinals of the requests: it converts
  \<^verbatim>\<open>0\<close>, \<^verbatim>\<open>2\<close> and \<^verbatim>\<open>5\<close>.
\<close>

theorem row_by_ordinal_witness:
  "row (\<lambda>s. if s = ''0'' then Inr 0 else if s = ''2'' then Inr 2 else if s = ''5'' then Inr 5
             else Inl ''invalid literal for int()'')
       [''t'' \<mapsto> \<lparr>columns = [''id''], rows = [[(''id'', VInt 1)], [(''id'', VInt 2)]]\<rparr>] ''t''
       ''0'' [(''_limit'', ''x'')] =
     Inl (WebstoreException
            (Message \<lparr>state = ''error'', message = ''Starting at offset 1 to allow header row'',
                      code = 400, url = None\<rparr>))
   \<and> row (\<lambda>s. if s = ''0'' then Inr 0 else if s = ''2'' then Inr 2 else if s = ''5'' then Inr 5
             else Inl ''invalid literal for int()'')
       [''t'' \<mapsto> \<lparr>columns = [''id''], rows = [[(''id'', VInt 1)], [(''id'', VInt 2)]]\<rparr>] ''t''
       ''2'' [(''_sort'', ''desc:id'')] =
     Inr (TablePayload [''id''] [[(''id'', VInt 1)]])
   \<and> row (\<lambda>s. if s = ''0'' then Inr 0 else if s = ''2'' then Inr 2 else if s = ''5'' then Inr 5
             else Inl ''invalid literal for int()'')
       [''t'' \<mapsto> \<lparr>columns = [''id''], rows = [[(''id'', VInt 1)], [(''id'', VInt 2)]]\<rparr>] ''t''
       ''5'' [(''_sort'', ''desc:id'')] =
     Inr (TablePayload [''id''] [])
   \<and> row (\<lambda>s. if s = ''0'' then Inr 0 else if s = ''2'' then Inr 2 else if s = ''5'' then Inr 5
             else Inl ''invalid literal for int()'')
       [''t'' \<mapsto> \<lparr>columns = [''id''], rows = [[(''id'', VInt 1)], [(''id'', VInt 2)]]\<rparr>] ''t''
       ''5'' [] =
     Inr (TablePayload [''id''] [])"
proof -
  let ?int = "\<lambda>s. if s = ''0'' then Inr 0 else if s = ''2'' then Inr 2 else if s = ''5'' then Inr 5
             else Inl ''invalid literal for int()''"
  let ?t = "\<lparr>columns = [''id''], rows = [[(''id'', VInt 1)], [(''id'', VInt 2)]]\<rparr>"
  let ?db = "[''t'' \<mapsto> ?t]"
  let ?s = "[(''_sort'', ''desc:id'')]"
  have db: "?db ''t'' = Some ?t" by simp
  have i0: "?int ''0'' = Inr 0" by simp
  have i2: "?int ''2'' = Inr 2" by simp
  have i5: "?int ''5'' = Inr 5" by simp
  have q2: "request_query ?int ?s \<lparr>q_limit = Some 1, q_offset = Some (2 - 1)\<rparr>
              = Inr ([], \<lparr>limit = Some 1, offset = Some 1, order_by = [(Desc, ''id'')]\<rparr>)"
    by (simp add: request_query_def pop_int_def contains_def poplist_def split_colon_def
          get_order_def lower_def lower_char_def update_args_def)
  have q5: "request_query ?int ?s \<lparr>q_limit = Some 1, q_offset = Some (5 - 1)\<rparr>
              = Inr ([], \<lparr>limit = Some 1, offset = Some 4, order_by = [(Desc, ''id'')]\<rparr>)"
    by (simp add: request_query_def pop_int_def contains_def poplist_def split_colon_def
          get_order_def lower_def lower_char_def update_args_def)
  have e2: "query ?t \<lparr>limit = Some 1, offset = Some 1, order_by = [(Desc, ''id'')]\<rparr> EmptyString
              = Inr \<lparr>keys = [''id''], fetched = [[VInt 1]]\<rparr>"
    by code_simp
  note th = row_by_ordinal [where db = ?db and name = "''t''" and t = ?t and py_int = ?int]
  have a: "row ?int ?db ''t'' ''0'' [(''_limit'', ''x'')] =
     Inl (WebstoreException
            (Message \<lparr>state = ''error'', message = ''Starting at offset 1 to allow header row'',
                      code = 400, url = None\<rparr>))"
    using th [OF db i0, where args = "[(''_limit'', ''x'')]", THEN conjunct1] by simp
  have b: "row ?int ?db ''t'' ''2'' ?s = Inr (TablePayload [''id''] [[(''id'', VInt 1)]])"
    using th [OF db i2, where args = ?s and ps = "[]"
                and qargs = "\<lparr>limit = Some 1, offset = Some 1, order_by = [(Desc, ''id'')]\<rparr>",
              THEN conjunct2, THEN conjunct2, THEN conjunct1]
      q2 e2
    by (simp add: result_proxy_iterator_def py_dict_def)
  have c: "row ?int ?db ''t'' ''5'' ?s = Inr (TablePayload [''id''] [])"
    using th [OF db i5, where args = ?s and ps = "[]"
                and qargs = "\<lparr>limit = Some 1, offset = Some 4, order_by = [(Desc, ''id'')]\<rparr>",
              THEN conjunct2, THEN conjunct2, THEN conjunct2, THEN conjunct1]
      q5
    by simp
  have d: "row ?int ?db ''t'' ''5'' [] = Inr (TablePayload [''id''] [])"
    using th [OF db i5, THEN conjunct2, THEN conjunct2, THEN conjunct2, THEN conjunct2]
    by simp
  show ?thesis using a b c d by simp
qed

end
